theory Spec2Isabelle
  imports Main
begin

section \<open>Data model of the document panel (components/block.tsx)\<close>

text \<open>
  A \<open>Document\<close> is one snapshot of a document. Its type is declared in the database
  schema; the panel reads the fields \<open>title\<close>, \<open>content\<close> (nullable: the code
  writes \<open>content ?? ""\<close>) and \<open>createdAt\<close>, and copies every other field unchanged, so
  the remaining fields are kept as one opaque component.
\<close>

record Document =
  doc_title :: string
  doc_content :: "string option"
  doc_createdAt :: nat
  doc_rest :: string

datatype block_status = Streaming | Idle

datatype display_mode = Edit | Diff

record BoundingBox =
  top :: int
  left :: int
  width :: int
  height :: int

record UIBlock =
  title :: string
  documentId :: string
  content :: string
  isVisible :: bool
  status :: block_status
  boundingBox :: BoundingBox

text \<open>
  The state of one mounted \<open>PureBlock\<close>: the \<open>block\<close> prop, the three \<open>useState\<close>
  cells \<open>mode\<close>, \<open>document\<close>, \<open>currentVersionIndex\<close> and \<open>isContentDirty\<close>, the
  SWR cache (a map from request key to the cached snapshot list), the pending slot of the
  debounced callback, and a log of the \<open>POST\<close> requests issued so far (key, title,
  content), which the code does not hold but the claims speak about.
\<close>

record block_state =
  block :: UIBlock
  cache :: "string \<rightharpoonup> Document list"
  mode :: display_mode
  document :: "Document option"
  currentVersionIndex :: int
  isContentDirty :: bool
  pendingSave :: "(nat \<times> string) option"
  posts :: "(string \<times> string \<times> string) list"

subsection \<open>JavaScript primitives used by the panel\<close>

text \<open>\<open>xs[i]\<close>: \<open>undefined\<close> (here \<open>None\<close>) outside \<open>0 .. length - 1\<close>.\<close>

definition js_index :: "'a list \<Rightarrow> int \<Rightarrow> 'a option" where
  "js_index xs i = (if 0 \<le> i \<and> i < int (length xs) then Some (xs ! nat i) else None)"

text \<open>\<open>xs.at(-1)\<close>: the last element, \<open>undefined\<close> on the empty array.\<close>

definition js_at_last :: "'a list \<Rightarrow> 'a option" where
  "js_at_last xs = js_index xs (int (length xs) - 1)"

text \<open>\<open>v ?? d\<close> on a nullable string.\<close>

definition nullish :: "string option \<Rightarrow> string \<Rightarrow> string" where
  "nullish v d = (case v of None \<Rightarrow> d | Some s \<Rightarrow> s)"

text \<open>\<open>!v\<close> on a nullable string: \<open>null\<close> and the empty string are falsy.\<close>

definition falsy :: "string option \<Rightarrow> bool" where
  "falsy v = (case v of None \<Rightarrow> True | Some s \<Rightarrow> s = [])"

subsection \<open>The version fetch\<close>

text \<open>The template string \<open>`/api/document?id=${block.documentId}`\<close> (lines 87, 133, 145).\<close>

definition documentUrl :: "UIBlock \<Rightarrow> string" where
  "documentUrl b = ''/api/document?id='' @ documentId b"

text \<open>
  The key handed to \<open>useSWR\<close> (lines 85-90). \<open>block\<close> is always an object, so the test
  \<open>block && ...\<close> reduces to the status test.
\<close>

definition documentsKey :: "UIBlock \<Rightarrow> string option" where
  "documentsKey b = (if status b \<noteq> Streaming then Some (documentUrl b) else None)"

text \<open>
  Modelled from the spec: \<open>useSWR\<close> is a library hook, not under src/. The version
  fetch is the \<open>GET\<close> the hook starts for its key, and it starts none when the key is
  \<open>null\<close>; its \<open>data\<close> is the cache entry of the key, \<open>undefined\<close> for the \<open>null\<close> key;
  its bound \<open>mutate\<close> (called by the effect of lines 121-123 when the status changes)
  fetches the same key again and does nothing for the \<open>null\<close> key. Both are given as the
  list of requests started in a render with block \<open>b\<close>.
\<close>

definition fetchVersions :: "UIBlock \<Rightarrow> string list" where
  "fetchVersions b = (case documentsKey b of None \<Rightarrow> [] | Some k \<Rightarrow> [k])"

definition mutateDocuments :: "UIBlock \<Rightarrow> string list" where
  "mutateDocuments b = (case documentsKey b of None \<Rightarrow> [] | Some k \<Rightarrow> [k])"

definition documents :: "block_state \<Rightarrow> Document list option" where
  "documents s = (case documentsKey (block s) of None \<Rightarrow> None | Some k \<Rightarrow> cache s k)"

subsection \<open>The effect on a new snapshot list (lines 106-119)\<close>

definition documentsEffect :: "block_state \<Rightarrow> block_state" where
  "documentsEffect s =
     (case documents s of
        None \<Rightarrow> s
      | Some ds \<Rightarrow>
          if length ds > 0 then
            (case js_at_last ds of
               None \<Rightarrow> s
             | Some mostRecentDocument \<Rightarrow>
                 s\<lparr>document := Some mostRecentDocument,
                   currentVersionIndex := int (length ds) - 1,
                   block := (block s)\<lparr>content := nullish (doc_content mostRecentDocument) []\<rparr>\<rparr>)
          else s)"

text \<open>
  After an event has changed the state from \<open>old\<close> to \<open>new\<close> the component renders
  again, and the effect runs when its dependency \<open>documents\<close> changed.
\<close>

definition rerender :: "block_state \<Rightarrow> block_state \<Rightarrow> block_state" where
  "rerender old new = (if documents new \<noteq> documents old then documentsEffect new else new)"

text \<open>A fetch for key \<open>k\<close> resolves with the list \<open>ds\<close>: the cache entry is replaced.\<close>

definition fetchResolved :: "string \<Rightarrow> Document list \<Rightarrow> block_state \<Rightarrow> block_state" where
  "fetchResolved k ds s = rerender s (s\<lparr>cache := (cache s)(k \<mapsto> ds)\<rparr>)"

subsection \<open>Reading a version (lines 191-195)\<close>

definition getDocumentContentById :: "block_state \<Rightarrow> int \<Rightarrow> string" where
  "getDocumentContentById s index =
     (case documents s of
        None \<Rightarrow> []
      | Some ds \<Rightarrow>
          (case js_index ds index of
             None \<Rightarrow> []
           | Some d \<Rightarrow> nullish (doc_content d) []))"

subsection \<open>Navigation (lines 197-218)\<close>

datatype version_change = Next | Prev | Toggle | Latest

text \<open>
  \<open>handleVersionChange\<close> reads \<open>documents\<close> and \<open>currentVersionIndex\<close> from the render
  it was created in (\<open>r\<close>) and queues state updates, which apply to the state \<open>s\<close> current
  when they run: \<open>setCurrentVersionIndex\<close> of a value or of an updater function,
  \<open>setMode\<close> likewise.
\<close>

definition handleVersionChange ::
  "block_state \<Rightarrow> version_change \<Rightarrow> block_state \<Rightarrow> block_state" where
  "handleVersionChange r type s =
     (case documents r of
        None \<Rightarrow> s
      | Some ds \<Rightarrow>
          (let s1 = (if type = Latest
                     then s\<lparr>currentVersionIndex := int (length ds) - 1, mode := Edit\<rparr>
                     else s);
               s2 = (if type = Toggle
                     then s1\<lparr>mode := (if mode s1 = Edit then Diff else Edit)\<rparr>
                     else s1)
           in if type = Prev then
                (if currentVersionIndex r > 0
                 then s2\<lparr>currentVersionIndex := currentVersionIndex s2 - 1\<rparr> else s2)
              else if type = Next then
                (if currentVersionIndex r < int (length ds) - 1
                 then s2\<lparr>currentVersionIndex := currentVersionIndex s2 + 1\<rparr> else s2)
              else s2))"

text \<open>
  One click: React commits the updates of a click before the next click is handled, so
  the handler of each click was created in the render of the current state.
\<close>

definition navigate :: "version_change \<Rightarrow> block_state \<Rightarrow> block_state" where
  "navigate type s = handleVersionChange s type s"

fun navigate_all :: "version_change list \<Rightarrow> block_state \<Rightarrow> block_state" where
  "navigate_all [] s = s"
| "navigate_all (t # ts) s = navigate_all ts (navigate t s)"

subsection \<open>What the panel body renders (lines 228-231, 409-429)\<close>

definition isCurrentVersion :: "block_state \<Rightarrow> bool" where
  "isCurrentVersion s =
     (case documents s of
        None \<Rightarrow> True
      | Some ds \<Rightarrow>
          if length ds > 0 then currentVersionIndex s = int (length ds) - 1 else True)"

datatype panel_body =
    DocumentSkeleton
  | Editor string
  | DiffView string string

definition panelBody :: "bool \<Rightarrow> block_state \<Rightarrow> panel_body" where
  "panelBody isDocumentsFetching s =
     (if isDocumentsFetching \<and> content (block s) = [] then DocumentSkeleton
      else if mode s = Edit then
        Editor (if isCurrentVersion s then content (block s)
                else getDocumentContentById s (currentVersionIndex s))
      else DiffView (getDocumentContentById s (currentVersionIndex s - 1))
                    (getDocumentContentById s (currentVersionIndex s)))"

subsection \<open>Saving an edit (lines 128-189)\<close>

text \<open>
  \<open>handleContentChange\<close> runs its updater on the cache entry of the document's key.
  \<open>fetchOk\<close> says whether the \<open>POST\<close> promise resolves (it rejects on a network
  failure, and then the updater throws: the cache entry and the dirty flag stay as they
  were); \<open>now\<close> is what \<open>new Date()\<close> returns.
\<close>

definition handleContentChange :: "bool \<Rightarrow> nat \<Rightarrow> string \<Rightarrow> block_state \<Rightarrow> block_state" where
  "handleContentChange fetchOk now updatedContent s =
     (let key = documentUrl (block s) in
      case cache s key of
        None \<Rightarrow> s
      | Some currentDocuments \<Rightarrow>
          (case js_at_last currentDocuments of
             None \<Rightarrow> s\<lparr>isContentDirty := False\<rparr>
           | Some currentDocument \<Rightarrow>
               if falsy (doc_content currentDocument) then s\<lparr>isContentDirty := False\<rparr>
               else if doc_content currentDocument \<noteq> Some updatedContent then
                 (let s1 = s\<lparr>posts := posts s @ [(key, title (block s), updatedContent)]\<rparr>;
                      newDocument = currentDocument
                        \<lparr>doc_content := Some updatedContent, doc_createdAt := now\<rparr>
                  in if fetchOk
                     then s1\<lparr>isContentDirty := False,
                            cache := (cache s)(key \<mapsto> currentDocuments @ [newDocument])\<rparr>
                     else s1)
               else s))"

definition debounceDelay :: nat where
  "debounceDelay = 2000"

text \<open>
  Modelled from the spec: \<open>useDebounceCallback\<close> is a library hook, not under src/. A
  call is deferred and coalesced into one pending slot: it replaces the pending argument
  and restarts the delay; the callback runs once, with the pending argument, when the
  delay has passed with no further call.
\<close>

definition debouncedHandleContentChange :: "nat \<Rightarrow> string \<Rightarrow> block_state \<Rightarrow> block_state" where
  "debouncedHandleContentChange now updatedContent s =
     s\<lparr>pendingSave := Some (now + debounceDelay, updatedContent)\<rparr>"

definition saveContent :: "bool \<Rightarrow> nat \<Rightarrow> string \<Rightarrow> bool \<Rightarrow> block_state \<Rightarrow> block_state" where
  "saveContent fetchOk now updatedContent debounce s =
     (case document s of
        None \<Rightarrow> s
      | Some d \<Rightarrow>
          if Some updatedContent \<noteq> doc_content d then
            (let s1 = s\<lparr>isContentDirty := True\<rparr>
             in if debounce then debouncedHandleContentChange now updatedContent s1
                else handleContentChange fetchOk now updatedContent s1)
          else s)"

text \<open>The pending debounced call runs when its deadline has passed at time \<open>now\<close>.\<close>

definition runTimers :: "bool \<Rightarrow> nat \<Rightarrow> block_state \<Rightarrow> block_state" where
  "runTimers fetchOk now s =
     (case pendingSave s of
        None \<Rightarrow> s
      | Some (deadline, updatedContent) \<Rightarrow>
          if deadline \<le> now then
            (let s0 = s\<lparr>pendingSave := None\<rparr>
             in rerender s0 (handleContentChange fetchOk deadline updatedContent s0))
          else s)"

text \<open>The editor reports an edit at time \<open>now\<close>.\<close>

definition editorSave :: "bool \<Rightarrow> nat \<Rightarrow> string \<Rightarrow> bool \<Rightarrow> block_state \<Rightarrow> block_state" where
  "editorSave fetchOk now updatedContent debounce s =
     (let s0 = runTimers fetchOk now s
      in rerender s0 (saveContent fetchOk now updatedContent debounce s0))"

fun saveAll :: "bool \<Rightarrow> (nat \<times> string) list \<Rightarrow> block_state \<Rightarrow> block_state" where
  "saveAll fetchOk [] s = s"
| "saveAll fetchOk ((t, c) # calls) s = saveAll fetchOk calls (editorSave fetchOk t c True s)"

text \<open>
  The calls following one made at time \<open>t0\<close> lie in one quiet window: each comes less
  than the delay after the call before it.
\<close>

fun withinQuietWindow :: "nat \<Rightarrow> (nat \<times> string) list \<Rightarrow> bool" where
  "withinQuietWindow t0 [] = True"
| "withinQuietWindow t0 ((t, c) # calls) =
     (t0 \<le> t \<and> t < t0 + debounceDelay \<and> withinQuietWindow t calls)"

section \<open>Data model of the message input (multimodal input and chat input)\<close>

record Attachment =
  url :: "string option"
  name :: "string option"
  contentType :: "string option"

text \<open>
  The parsed JSON body of the upload endpoint's response: the fields the code
  destructures, each \<open>undefined\<close> (\<open>None\<close>) when the body lacks it.
\<close>

record upload_json =
  json_url :: "string option"
  json_pathname :: "string option"
  json_contentType :: "string option"
  json_error :: "string option"

text \<open>
  What \<open>fetch\<close> does for one file: the promise rejects, or it resolves to a response
  with its \<open>ok\<close> flag and its body (\<open>None\<close> when reading the body as JSON throws).
\<close>

datatype upload_response = Rejected | Response bool "upload_json option"

record input_state =
  input :: string
  attachments :: "Attachment list"
  uploadQueue :: "string list"
  isLoading :: bool
  localStorageInput :: string
  submissions :: "(string \<times> Attachment list) list"
  toasts :: "string option list"

text \<open>
  \<open>uploadFile\<close> (lines 118-143 and 90-115): the attachment, or \<open>undefined\<close> after a
  toast. Every exception is caught inside, so the promise never rejects.
\<close>

definition uploadFile :: "upload_response \<Rightarrow> Attachment option \<times> string option list" where
  "uploadFile r =
     (case r of
        Rejected \<Rightarrow> (None, [Some ''Failed to upload file, please try again!''])
      | Response ok body \<Rightarrow>
          (case body of
             None \<Rightarrow> (None, [Some ''Failed to upload file, please try again!''])
           | Some data \<Rightarrow>
               if ok then
                 (Some \<lparr>url = json_url data, name = json_pathname data,
                        contentType = json_contentType data\<rparr>, [])
               else (None, [json_error data])))"

text \<open>
  \<open>handleFileChange\<close> (lines 145-164 and 117-138), in its two steps: before the
  uploads are awaited, and after \<open>Promise.all\<close> has resolved (its results are in the
  order of the files). A file is its name and the response its upload gets.
\<close>

definition handleFileChange_begin ::
  "(string \<times> upload_response) list \<Rightarrow> input_state \<Rightarrow> input_state" where
  "handleFileChange_begin files s = s\<lparr>uploadQueue := map fst files\<rparr>"

definition handleFileChange_complete ::
  "(string \<times> upload_response) list \<Rightarrow> input_state \<Rightarrow> input_state" where
  "handleFileChange_complete files s =
     (let uploadedAttachments = map (\<lambda>file. uploadFile (snd file)) files;
          successfullyUploadedAttachments =
            map the (filter (\<lambda>attachment. attachment \<noteq> None) (map fst uploadedAttachments))
      in s\<lparr>attachments := attachments s @ successfullyUploadedAttachments,
           toasts := toasts s @ concat (map snd uploadedAttachments),
           uploadQueue := []\<rparr>)"

definition handleFileChange ::
  "(string \<times> upload_response) list \<Rightarrow> input_state \<Rightarrow> input_state" where
  "handleFileChange files s = handleFileChange_complete files (handleFileChange_begin files s)"

text \<open>
  \<open>submitForm\<close> (lines 103-116 and 79-88). \<open>handleSubmit\<close> is the chat hook's; the
  call is recorded with the input it sees and the attachments passed to it.
\<close>

definition submitForm :: "input_state \<Rightarrow> input_state" where
  "submitForm s =
     s\<lparr>submissions := submissions s @ [(input s, attachments s)],
       attachments := [],
       localStorageInput := []\<rparr>"

text \<open>The \<open>disabled\<close> attribute of the send button (lines 240 and 236).\<close>

definition sendDisabled :: "input_state \<Rightarrow> bool" where
  "sendDisabled s = (length (input s) = 0 \<or> length (uploadQueue s) > 0)"

text \<open>
  A click on the send button: the button is rendered only while not loading, and a
  disabled button delivers no click.
\<close>

definition clickSend :: "input_state \<Rightarrow> input_state" where
  "clickSend s = (if isLoading s \<or> sendDisabled s then s else submitForm s)"

text \<open>\<open>onKeyDown\<close> of the text area (lines 209-219 and 188-198).\<close>

definition onKeyDown :: "string \<Rightarrow> bool \<Rightarrow> input_state \<Rightarrow> input_state" where
  "onKeyDown key shiftKey s =
     (if key = ''Enter'' \<and> \<not> shiftKey then
        (if isLoading s
         then s\<lparr>toasts := toasts s @ [Some ''Please wait for the model to finish its response!'']\<rparr>
         else submitForm s)
      else s)"

section \<open>Example states\<close>

definition doc :: "string \<Rightarrow> Document" where
  "doc c = \<lparr>doc_title = ''Notes'', doc_content = Some c, doc_createdAt = 0, doc_rest = ''doc1''\<rparr>"

definition idle_block :: "string \<Rightarrow> UIBlock" where
  "idle_block c =
     \<lparr>title = ''Notes'', documentId = ''doc1'', content = c, isVisible = True, status = Idle,
      boundingBox = \<lparr>top = 0, left = 0, width = 250, height = 50\<rparr>\<rparr>"

definition streaming_block :: UIBlock where
  "streaming_block = (idle_block ''Hel'')\<lparr>status := Streaming\<rparr>"

text \<open>
  A visible idle panel on document \<open>doc1\<close> whose cached snapshot list is \<open>ds\<close>, at version
  index \<open>i\<close> in mode \<open>m\<close>, with the given dirty flag and mirrored content.
\<close>

definition panel :: "Document list \<Rightarrow> int \<Rightarrow> display_mode \<Rightarrow> bool \<Rightarrow> string \<Rightarrow> block_state" where
  "panel ds i m dirty c =
     \<lparr>block = idle_block c, cache = [''/api/document?id=doc1'' \<mapsto> ds], mode = m,
      document = js_at_last ds, currentVersionIndex = i, isContentDirty = dirty,
      pendingSave = None, posts = []\<rparr>"

definition upload_ok :: "string \<Rightarrow> upload_response" where
  "upload_ok n = Response True (Some \<lparr>json_url = Some (''https://blob/'' @ n),
     json_pathname = Some n, json_contentType = Some ''image/png'', json_error = None\<rparr>)"

definition upload_refused :: upload_response where
  "upload_refused = Response False (Some \<lparr>json_url = None, json_pathname = None,
     json_contentType = None, json_error = Some ''File size should be less than 5MB''\<rparr>)"

text \<open>The input while the user types \<open>text\<close> with the uploads \<open>queue\<close> pending.\<close>

definition typing :: "string \<Rightarrow> string list \<Rightarrow> input_state" where
  "typing text queue =
     \<lparr>input = text, attachments = [], uploadQueue = queue, isLoading = False,
      localStorageInput = text, submissions = [], toasts = []\<rparr>"

section \<open>Facts about the primitives and the example states\<close>

lemma js_at_last_nonempty: "ds \<noteq> [] \<Longrightarrow> js_at_last ds = Some (last ds)"
  by (simp add: js_at_last_def js_index_def last_conv_nth nat_diff_distrib' int_ops)

lemma js_at_last_empty: "js_at_last [] = None"
  by (simp add: js_at_last_def js_index_def)

lemma documents_flags:
  "documents (s\<lparr>isContentDirty := b\<rparr>) = documents s"
  "documents (s\<lparr>pendingSave := p\<rparr>) = documents s"
  by (simp_all add: documents_def split: option.splits)

lemma documents_panel: "documents (panel ds i m dirty c) = Some ds"
  by (simp add: documents_def documentsKey_def documentUrl_def panel_def idle_block_def)

lemma documentsKey_panel:
  "documentsKey (block (panel ds i m dirty c)) = Some ''/api/document?id=doc1''"
  by (simp add: documentsKey_def documentUrl_def panel_def idle_block_def)

lemma cache_panel: "cache (panel ds i m dirty c) ''/api/document?id=doc1'' = Some ds"
  by (simp add: panel_def)

lemma document_panel: "ds \<noteq> [] \<Longrightarrow> document (panel ds i m dirty c) = Some (last ds)"
  by (simp add: panel_def js_at_last_nonempty)

lemma panel_simps:
  "currentVersionIndex (panel ds i m dirty c) = i"
  "mode (panel ds i m dirty c) = m"
  "isContentDirty (panel ds i m dirty c) = dirty"
  "content (block (panel ds i m dirty c)) = c"
  by (simp_all add: panel_def idle_block_def)

section \<open>The version fetch and the effect on its result\<close>

text \<open>
  C4. The version fetch is not started while the panel status is \<open>streaming\<close>: in a
  render whose block has that status neither the hook nor the revalidation on a status
  change starts a request, and a request is started only with status \<open>idle\<close>.
\<close>

theorem no_fetch_while_streaming:
  "(status b = Streaming \<longrightarrow> fetchVersions b = [] \<and> mutateDocuments b = []) \<and>
   (fetchVersions b \<noteq> [] \<or> mutateDocuments b \<noteq> [] \<longrightarrow> status b = Idle)"
  by (cases "status b") (simp_all add: fetchVersions_def mutateDocuments_def documentsKey_def)

theorem no_fetch_while_streaming_witness:
  "status streaming_block = Streaming \<and> fetchVersions streaming_block = [] \<and>
   mutateDocuments streaming_block = [] \<and>
   fetchVersions (idle_block ''Hello'') = [''/api/document?id=doc1''] \<and>
   status (idle_block ''Hello'') = Idle"
  using no_fetch_while_streaming [of streaming_block]
    no_fetch_while_streaming [of "idle_block ''Hello''"]
  by (simp add: streaming_block_def idle_block_def fetchVersions_def documentsKey_def
      documentUrl_def)

lemma documents_fetchResolved_cache:
  "documentsKey (block s) = Some k \<Longrightarrow>
   documents (s\<lparr>cache := (cache s)(k \<mapsto> ds)\<rparr>) = Some ds"
  by (simp add: documents_def)

lemma fetchResolved_new:
  assumes "documentsKey (block s) = Some k" and "ds \<noteq> []" and "cache s k \<noteq> Some ds"
  shows "fetchResolved k ds s =
     s\<lparr>cache := (cache s)(k \<mapsto> ds), document := Some (last ds),
       currentVersionIndex := int (length ds) - 1,
       block := (block s)\<lparr>content := nullish (doc_content (last ds)) []\<rparr>\<rparr>"
proof -
  let ?s' = "s\<lparr>cache := (cache s)(k \<mapsto> ds)\<rparr>"
  have d': "documents ?s' = Some ds"
    using assms(1) by (rule documents_fetchResolved_cache)
  have d: "documents s = cache s k"
    using assms(1) by (simp add: documents_def)
  have "fetchResolved k ds s = documentsEffect ?s'"
    using d d' assms(3) by (simp add: fetchResolved_def rerender_def)
  also have "\<dots> = ?s'\<lparr>document := Some (last ds),
       currentVersionIndex := int (length ds) - 1,
       block := (block ?s')\<lparr>content := nullish (doc_content (last ds)) []\<rparr>\<rparr>"
    using d' assms(2) by (simp add: documentsEffect_def js_at_last_nonempty)
  finally show ?thesis by simp
qed

text \<open>
  C1, as the code has it. The effect on a fetch result does not read the dirty flag: a
  fetched non-empty snapshot list for the document shown, different from the cached one,
  replaces the Panel State content by the content of its latest snapshot (the empty
  string for \<open>null\<close>) whether or not an edit is in flight, and leaves the dirty flag as
  it was.
\<close>

theorem fetch_result_replaces_content:
  assumes "documentsKey (block s) = Some k" and "ds \<noteq> []" and "cache s k \<noteq> Some ds"
  shows "content (block (fetchResolved k ds s)) = nullish (doc_content (last ds)) [] \<and>
         isContentDirty (fetchResolved k ds s) = isContentDirty s"
  using fetchResolved_new [OF assms] by simp

theorem fetch_result_replaces_content_witness:
  "content (block (fetchResolved ''/api/document?id=doc1'' [doc ''old'', doc ''new'']
      (panel [doc ''old''] 0 Edit True ''edited''))) = ''new'' \<and>
   isContentDirty (fetchResolved ''/api/document?id=doc1'' [doc ''old'', doc ''new'']
      (panel [doc ''old''] 0 Edit True ''edited''))"
  using fetch_result_replaces_content
    [of "panel [doc ''old''] 0 Edit True ''edited''" "''/api/document?id=doc1''"
        "[doc ''old'', doc ''new'']"]
  by (simp add: documentsKey_panel cache_panel panel_simps doc_def nullish_def)

text \<open>
  C1 as stated fails: with the dirty flag set and the content \<open>edited\<close>, a fetch result
  whose latest snapshot is \<open>new\<close> changes the content to \<open>new\<close>.
\<close>

theorem dirty_edit_clobbered_counterexample:
  "isContentDirty (panel [doc ''old''] 0 Edit True ''edited'') \<and>
   content (block (panel [doc ''old''] 0 Edit True ''edited'')) = ''edited'' \<and>
   content (block (fetchResolved ''/api/document?id=doc1'' [doc ''old'', doc ''new'']
      (panel [doc ''old''] 0 Edit True ''edited''))) = ''new''"
  by (simp add: panel_def idle_block_def fetchResolved_def rerender_def documents_def
      documentsKey_def documentUrl_def documentsEffect_def js_at_last_def js_index_def
      nullish_def doc_def)

text \<open>
  C5, as the code has it. When the panel receives a new non-empty snapshot list for the
  document shown, \<open>currentVersionIndex\<close> becomes \<open>length - 1\<close>, the content of that last
  snapshot (the empty string for \<open>null\<close>) is mirrored into the Panel State content and
  the snapshot becomes the current \<open>document\<close>, whatever the index was before: the code
  keeps no record of the user having navigated to a historical version.
\<close>

theorem new_sequence_advances_to_latest:
  assumes "documentsKey (block s) = Some k" and "ds \<noteq> []" and "cache s k \<noteq> Some ds"
  shows "currentVersionIndex (fetchResolved k ds s) = int (length ds) - 1 \<and>
         content (block (fetchResolved k ds s)) = nullish (doc_content (last ds)) [] \<and>
         document (fetchResolved k ds s) = Some (last ds)"
  using fetchResolved_new [OF assms] by simp

theorem new_sequence_advances_to_latest_witness:
  "currentVersionIndex
     (fetchResolved ''/api/document?id=doc1'' [doc ''a'', doc ''ab'', doc ''abc'']
        (panel [doc ''a'', doc ''ab''] 0 Edit False ''ab'')) = 2 \<and>
   content (block
     (fetchResolved ''/api/document?id=doc1'' [doc ''a'', doc ''ab'', doc ''abc'']
        (panel [doc ''a'', doc ''ab''] 0 Edit False ''ab''))) = ''abc'' \<and>
   document
     (fetchResolved ''/api/document?id=doc1'' [doc ''a'', doc ''ab'', doc ''abc'']
        (panel [doc ''a'', doc ''ab''] 0 Edit False ''ab'')) = Some (doc ''abc'')"
  using new_sequence_advances_to_latest
    [of "panel [doc ''a'', doc ''ab''] 0 Edit False ''ab''" "''/api/document?id=doc1''"
        "[doc ''a'', doc ''ab'', doc ''abc'']"]
  by (simp add: documentsKey_panel cache_panel doc_def nullish_def)

text \<open>
  C5 as stated fails: the user steps back from version 1 to version 0, a list of three
  snapshots arrives, and the index is 2, not the user's 0.
\<close>

theorem historical_index_reset_counterexample:
  "currentVersionIndex (navigate Prev (panel [doc ''a'', doc ''ab''] 1 Edit False ''ab'')) = 0 \<and>
   currentVersionIndex
     (fetchResolved ''/api/document?id=doc1'' [doc ''a'', doc ''ab'', doc ''abc'']
        (navigate Prev (panel [doc ''a'', doc ''ab''] 1 Edit False ''ab''))) = 2"
  by (simp add: panel_def idle_block_def fetchResolved_def rerender_def documents_def
      documentsKey_def documentUrl_def documentsEffect_def js_at_last_def js_index_def
      nullish_def doc_def navigate_def handleVersionChange_def)

section \<open>Reading a version\<close>

text \<open>
  C9. \<open>getDocumentContentById\<close> is defined on every integer index. It is the empty
  string when the snapshot list is absent, when the index is negative or at least the
  length, and when the snapshot at the index has \<open>null\<close> content; otherwise it is the
  content of the snapshot at the index.
\<close>

theorem getDocumentContentById_total:
  "(documents s = None \<longrightarrow> getDocumentContentById s i = []) \<and>
   (\<forall>ds. documents s = Some ds \<longrightarrow>
      (i < 0 \<or> int (length ds) \<le> i \<longrightarrow> getDocumentContentById s i = []) \<and>
      (0 \<le> i \<and> i < int (length ds) \<longrightarrow>
         (doc_content (ds ! nat i) = None \<longrightarrow> getDocumentContentById s i = []) \<and>
         (\<forall>c. doc_content (ds ! nat i) = Some c \<longrightarrow> getDocumentContentById s i = c)))"
  by (auto simp: getDocumentContentById_def js_index_def nullish_def)

theorem getDocumentContentById_total_witness:
  "getDocumentContentById (panel [doc ''a'', doc ''ab''] 1 Edit False ''ab'') 1 = ''ab'' \<and>
   getDocumentContentById (panel [doc ''a'', doc ''ab''] 1 Edit False ''ab'') 2 = [] \<and>
   getDocumentContentById (panel [doc ''a'', doc ''ab''] 1 Edit False ''ab'') (- 1) = []"
  using getDocumentContentById_total
    [of "panel [doc ''a'', doc ''ab''] 1 Edit False ''ab''" 1]
    getDocumentContentById_total
    [of "panel [doc ''a'', doc ''ab''] 1 Edit False ''ab''" 2]
    getDocumentContentById_total
    [of "panel [doc ''a'', doc ''ab''] 1 Edit False ''ab''" "- 1"]
  by (simp add: documents_panel doc_def)

section \<open>Navigation\<close>

lemma documents_navigate: "documents (navigate t s) = documents s"
  by (simp add: navigate_def handleVersionChange_def documents_def Let_def split: option.splits)

lemma navigate_in_range:
  assumes "documents s = Some ds" and "0 \<le> currentVersionIndex s"
    and "currentVersionIndex s \<le> int (length ds) - 1"
  shows "0 \<le> currentVersionIndex (navigate t s) \<and>
         currentVersionIndex (navigate t s) \<le> int (length ds) - 1"
  using assms by (cases t) (auto simp: navigate_def handleVersionChange_def Let_def)

lemma navigate_all_in_range:
  assumes "documents s = Some ds" and "0 \<le> currentVersionIndex s"
    and "currentVersionIndex s \<le> int (length ds) - 1"
  shows "0 \<le> currentVersionIndex (navigate_all ts s) \<and>
         currentVersionIndex (navigate_all ts s) \<le> int (length ds) - 1"
  using assms
proof (induction ts arbitrary: s)
  case Nil
  then show ?case by simp
next
  case (Cons t ts)
  have d: "documents (navigate t s) = Some ds"
    using Cons.prems(1) by (simp add: documents_navigate)
  have r: "0 \<le> currentVersionIndex (navigate t s) \<and>
           currentVersionIndex (navigate t s) \<le> int (length ds) - 1"
    using Cons.prems by (rule navigate_in_range)
  show ?case
    using Cons.IH [OF d] r by simp
qed

text \<open>
  C2. On a panel whose snapshot list has at least one entry and whose index is in
  \<open>[0, length - 1]\<close>, every sequence of \<open>next\<close>, \<open>prev\<close>, \<open>toggle\<close> and \<open>latest\<close>
  leaves \<open>currentVersionIndex\<close> in that range; \<open>prev\<close> at index 0 and \<open>next\<close> at index
  \<open>length - 1\<close> change nothing, \<open>latest\<close> sets the index to \<open>length - 1\<close> and the mode to
  edit, and \<open>toggle\<close> flips the mode between edit and diff and keeps the index.
\<close>

theorem navigate_keeps_index_in_range:
  assumes "documents s = Some ds" and "1 \<le> length ds"
    and "0 \<le> currentVersionIndex s"
    and "currentVersionIndex s \<le> int (length ds) - 1"
  shows "0 \<le> currentVersionIndex (navigate_all ts s) \<and>
         currentVersionIndex (navigate_all ts s) \<le> int (length ds) - 1 \<and>
         (currentVersionIndex s = 0 \<longrightarrow> navigate Prev s = s) \<and>
         (currentVersionIndex s = int (length ds) - 1 \<longrightarrow> navigate Next s = s) \<and>
         currentVersionIndex (navigate Latest s) = int (length ds) - 1 \<and>
         mode (navigate Latest s) = Edit \<and>
         currentVersionIndex (navigate Toggle s) = currentVersionIndex s \<and>
         mode (navigate Toggle s) = (if mode s = Edit then Diff else Edit)"
proof -
  have "0 \<le> currentVersionIndex (navigate_all ts s) \<and>
        currentVersionIndex (navigate_all ts s) \<le> int (length ds) - 1"
    using assms(1,3,4) by (rule navigate_all_in_range)
  moreover have "currentVersionIndex s = 0 \<longrightarrow> navigate Prev s = s"
    using assms(1) by (simp add: navigate_def handleVersionChange_def)
  moreover have "currentVersionIndex s = int (length ds) - 1 \<longrightarrow> navigate Next s = s"
    using assms(1) by (simp add: navigate_def handleVersionChange_def)
  moreover have "currentVersionIndex (navigate Latest s) = int (length ds) - 1 \<and>
        mode (navigate Latest s) = Edit"
    using assms(1) by (simp add: navigate_def handleVersionChange_def)
  moreover have "currentVersionIndex (navigate Toggle s) = currentVersionIndex s \<and>
        mode (navigate Toggle s) = (if mode s = Edit then Diff else Edit)"
    using assms(1) by (simp add: navigate_def handleVersionChange_def)
  ultimately show ?thesis by simp
qed

theorem navigate_keeps_index_in_range_witness:
  "0 \<le> currentVersionIndex
     (navigate_all [Prev, Prev, Toggle, Next, Next, Next, Latest, Prev]
        (panel [doc ''a'', doc ''ab'', doc ''abc''] 1 Edit False ''abc'')) \<and>
   currentVersionIndex
     (navigate_all [Prev, Prev, Toggle, Next, Next, Next, Latest, Prev]
        (panel [doc ''a'', doc ''ab'', doc ''abc''] 1 Edit False ''abc'')) \<le> 2 \<and>
   navigate Prev (panel [doc ''a'', doc ''ab'', doc ''abc''] 0 Edit False ''abc'')
     = panel [doc ''a'', doc ''ab'', doc ''abc''] 0 Edit False ''abc'' \<and>
   navigate Next (panel [doc ''a'', doc ''ab'', doc ''abc''] 2 Diff False ''abc'')
     = panel [doc ''a'', doc ''ab'', doc ''abc''] 2 Diff False ''abc''"
  using navigate_keeps_index_in_range
    [of "panel [doc ''a'', doc ''ab'', doc ''abc''] 1 Edit False ''abc''"
        "[doc ''a'', doc ''ab'', doc ''abc'']"
        "[Prev, Prev, Toggle, Next, Next, Next, Latest, Prev]"]
    navigate_keeps_index_in_range
    [of "panel [doc ''a'', doc ''ab'', doc ''abc''] 0 Edit False ''abc''"
        "[doc ''a'', doc ''ab'', doc ''abc'']" "[]"]
    navigate_keeps_index_in_range
    [of "panel [doc ''a'', doc ''ab'', doc ''abc''] 2 Diff False ''abc''"
        "[doc ''a'', doc ''ab'', doc ''abc'']" "[]"]
  by (simp add: documents_panel panel_simps)

section \<open>The diff view\<close>

text \<open>
  C8. In diff mode (with the body rendered, not the skeleton) the diff at an index
  \<open>i > 0\<close> within the list is between the contents of snapshot \<open>i - 1\<close> (old) and of
  snapshot \<open>i\<close> (new), a \<open>null\<close> content read as the empty string; at index 0 it is
  between the empty string and the content of snapshot 0.
\<close>

theorem diff_view_compares_adjacent:
  assumes "documents s = Some ds" and "mode s = Diff"
    and "\<not> (fetching \<and> content (block s) = [])"
  shows "(0 < currentVersionIndex s \<and> currentVersionIndex s < int (length ds) \<longrightarrow>
            panelBody fetching s =
              DiffView (nullish (doc_content (ds ! nat (currentVersionIndex s - 1))) [])
                       (nullish (doc_content (ds ! nat (currentVersionIndex s))) [])) \<and>
         (currentVersionIndex s = 0 \<and> ds \<noteq> [] \<longrightarrow>
            panelBody fetching s = DiffView [] (nullish (doc_content (ds ! 0)) []))"
  using assms
  by (auto simp: panelBody_def getDocumentContentById_def js_index_def)

theorem diff_view_compares_adjacent_witness:
  "panelBody False (panel [doc ''a'', doc ''ab''] 1 Diff False ''ab'') = DiffView ''a'' ''ab'' \<and>
   panelBody False (panel [doc ''a'', doc ''ab''] 0 Diff False ''ab'') = DiffView [] ''a''"
  using diff_view_compares_adjacent
    [of "panel [doc ''a'', doc ''ab''] 1 Diff False ''ab''" "[doc ''a'', doc ''ab'']" False]
    diff_view_compares_adjacent
    [of "panel [doc ''a'', doc ''ab''] 0 Diff False ''ab''" "[doc ''a'', doc ''ab'']" False]
  by (simp add: documents_panel panel_simps doc_def nullish_def)

section \<open>Saving an edit\<close>

lemma handleContentChange_no_latest:
  assumes "cache s (documentUrl (block s)) = Some ds"
    and "ds = [] \<or> falsy (doc_content (last ds))"
  shows "handleContentChange fetchOk now c s = s\<lparr>isContentDirty := False\<rparr>"
proof (cases "ds = []")
  case True
  then show ?thesis
    using assms(1) by (simp add: handleContentChange_def js_at_last_empty)
next
  case False
  then have "falsy (doc_content (last ds))" using assms(2) by simp
  then show ?thesis
    using assms(1) False by (simp add: handleContentChange_def js_at_last_nonempty)
qed

lemma handleContentChange_unchanged:
  assumes "cache s (documentUrl (block s)) = Some ds"
    and "ds \<noteq> []" and "\<not> falsy (doc_content (last ds))"
    and "doc_content (last ds) = Some c"
  shows "handleContentChange fetchOk now c s = s"
  using assms by (simp add: handleContentChange_def js_at_last_nonempty)

lemma handleContentChange_changed:
  assumes "cache s (documentUrl (block s)) = Some ds"
    and "ds \<noteq> []" and "\<not> falsy (doc_content (last ds))"
    and "doc_content (last ds) \<noteq> Some c"
  shows "handleContentChange fetchOk now c s =
     (if fetchOk
      then s\<lparr>posts := posts s @
               [(documentUrl (block s), title (block s), c)],
             isContentDirty := False,
             cache := (cache s)(documentUrl (block s) \<mapsto>
               ds @ [(last ds)\<lparr>doc_content := Some c, doc_createdAt := now\<rparr>])\<rparr>
      else s\<lparr>posts := posts s @
               [(documentUrl (block s), title (block s), c)]\<rparr>)"
  using assms by (simp add: handleContentChange_def js_at_last_nonempty Let_def)

text \<open>
  C6, as the code has it. For every persistence attempt that finds a cached snapshot
  list: when the list is empty or its latest snapshot has \<open>null\<close> or empty content, no
  \<open>POST\<close> is issued, the list stays and the dirty flag is cleared, whatever the new
  content; when the latest content is non-empty and equal to the new content, no
  \<open>POST\<close> is issued and the cache stays as it is; when it is non-empty and differs, one
  \<open>POST\<close> with the new content is issued and, once that request has resolved, a
  snapshot with the new content is appended to the cached list and the dirty flag is
  cleared.
\<close>

theorem handleContentChange_persists:
  assumes "cache s (documentUrl (block s)) = Some ds"
  shows "(ds = [] \<or> falsy (doc_content (last ds)) \<longrightarrow>
            handleContentChange fetchOk now c s = s\<lparr>isContentDirty := False\<rparr>) \<and>
         (ds \<noteq> [] \<and> \<not> falsy (doc_content (last ds)) \<and> doc_content (last ds) = Some c \<longrightarrow>
            posts (handleContentChange fetchOk now c s) = posts s \<and>
            cache (handleContentChange fetchOk now c s) = cache s) \<and>
         (ds \<noteq> [] \<and> \<not> falsy (doc_content (last ds)) \<and> doc_content (last ds) \<noteq> Some c \<longrightarrow>
            posts (handleContentChange fetchOk now c s) =
              posts s @ [(documentUrl (block s), title (block s), c)] \<and>
            (fetchOk \<longrightarrow>
               cache (handleContentChange fetchOk now c s)
                 (documentUrl (block s)) =
                 Some (ds @ [(last ds)\<lparr>doc_content := Some c, doc_createdAt := now\<rparr>]) \<and>
               \<not> isContentDirty (handleContentChange fetchOk now c s)))"
proof (intro conjI impI)
  assume "ds = [] \<or> falsy (doc_content (last ds))"
  with assms show "handleContentChange fetchOk now c s = s\<lparr>isContentDirty := False\<rparr>"
    by (rule handleContentChange_no_latest)
next
  assume a: "ds \<noteq> [] \<and> \<not> falsy (doc_content (last ds)) \<and> doc_content (last ds) = Some c"
  then have n: "ds \<noteq> []" and f: "\<not> falsy (doc_content (last ds))"
    and q: "doc_content (last ds) = Some c"
    by blast+
  have "handleContentChange fetchOk now c s = s"
    by (rule handleContentChange_unchanged [OF assms n f q])
  then show "posts (handleContentChange fetchOk now c s) = posts s"
    and "cache (handleContentChange fetchOk now c s) = cache s"
    by simp_all
next
  assume a: "ds \<noteq> [] \<and> \<not> falsy (doc_content (last ds)) \<and> doc_content (last ds) \<noteq> Some c"
  then have e: "handleContentChange fetchOk now c s =
     (if fetchOk
      then s\<lparr>posts := posts s @
               [(documentUrl (block s), title (block s), c)],
             isContentDirty := False,
             cache := (cache s)(documentUrl (block s) \<mapsto>
               ds @ [(last ds)\<lparr>doc_content := Some c, doc_createdAt := now\<rparr>])\<rparr>
      else s\<lparr>posts := posts s @
               [(documentUrl (block s), title (block s), c)]\<rparr>)"
    using a by (intro handleContentChange_changed [OF assms]) blast+
  show "posts (handleContentChange fetchOk now c s) =
      posts s @ [(documentUrl (block s), title (block s), c)]"
    by (simp add: e)
  {
    assume "fetchOk"
    then have e': "handleContentChange fetchOk now c s =
       s\<lparr>posts := posts s @ [(documentUrl (block s), title (block s), c)],
         isContentDirty := False,
         cache := (cache s)(documentUrl (block s) \<mapsto>
           ds @ [(last ds)\<lparr>doc_content := Some c, doc_createdAt := now\<rparr>])\<rparr>"
      using e by simp
    show "cache (handleContentChange fetchOk now c s) (documentUrl (block s)) =
                 Some (ds @ [(last ds)\<lparr>doc_content := Some c, doc_createdAt := now\<rparr>])"
      by (simp only: e') simp
    show "\<not> isContentDirty (handleContentChange fetchOk now c s)"
      by (simp only: e') simp
  }
qed

theorem handleContentChange_persists_witness:
  "handleContentChange True 5 ''x'' (panel [doc ''''] 0 Edit True '''')
     = (panel [doc ''''] 0 Edit True '''')\<lparr>isContentDirty := False\<rparr> \<and>
   posts (handleContentChange True 5 ''a'' (panel [doc ''a''] 0 Edit True ''a'')) = [] \<and>
   posts (handleContentChange True 5 ''ab'' (panel [doc ''a''] 0 Edit True ''a''))
     = [(''/api/document?id=doc1'', ''Notes'', ''ab'')] \<and>
   cache (handleContentChange True 5 ''ab'' (panel [doc ''a''] 0 Edit True ''a''))
     ''/api/document?id=doc1'' = Some [doc ''a'', (doc ''ab'')\<lparr>doc_createdAt := 5\<rparr>] \<and>
   \<not> isContentDirty (handleContentChange True 5 ''ab'' (panel [doc ''a''] 0 Edit True ''a''))"
  using handleContentChange_persists
     [of "panel [doc ''''] 0 Edit True ''''" "[doc '''']" True 5 "''x''"]
    handleContentChange_persists
     [of "panel [doc ''a''] 0 Edit True ''a''" "[doc ''a'']" True 5 "''a''"]
    handleContentChange_persists
     [of "panel [doc ''a''] 0 Edit True ''a''" "[doc ''a'']" True 5 "''ab''"]
  by (simp add: documentUrl_def panel_def idle_block_def doc_def falsy_def)

text \<open>
  C6 as stated fails. The latest snapshot has empty content and the new content is
  \<open>x\<close>: they differ, and no \<open>POST\<close> is issued and nothing is appended. The latest
  snapshot has content \<open>a\<close> and the new content is \<open>a\<close>: the dirty flag stays set.
\<close>

theorem handleContentChange_persists_counterexample:
  "doc_content (last [doc '''']) \<noteq> Some ''x'' \<and>
   posts (handleContentChange True 5 ''x'' (panel [doc ''''] 0 Edit True '''')) = [] \<and>
   cache (handleContentChange True 5 ''x'' (panel [doc ''''] 0 Edit True ''''))
     ''/api/document?id=doc1'' = Some [doc ''''] \<and>
   doc_content (last [doc ''a'']) = Some ''a'' \<and>
   isContentDirty (handleContentChange True 5 ''a'' (panel [doc ''a''] 0 Edit True ''a''))"
  by (simp add: documentUrl_def panel_def idle_block_def doc_def handleContentChange_def
      js_at_last_def js_index_def falsy_def Let_def)

lemma runTimers_not_due:
  assumes "pendingSave s = None \<or> (\<exists>c0 deadline. pendingSave s = Some (deadline, c0) \<and> now < deadline)"
  shows "runTimers fetchOk now s = s"
  using assms by (auto simp: runTimers_def)

lemma editorSave_debounced:
  assumes "document s = Some d" and "Some c \<noteq> doc_content d"
    and "pendingSave s = None \<or> (\<exists>c0 deadline. pendingSave s = Some (deadline, c0) \<and> now < deadline)"
  shows "editorSave fetchOk now c True s =
         s\<lparr>isContentDirty := True, pendingSave := Some (now + debounceDelay, c)\<rparr>"
proof -
  have "runTimers fetchOk now s = s"
    using assms(3) by (rule runTimers_not_due)
  moreover have "saveContent fetchOk now c True s =
      s\<lparr>isContentDirty := True, pendingSave := Some (now + debounceDelay, c)\<rparr>"
    using assms(1,2) by (simp add: saveContent_def debouncedHandleContentChange_def)
  ultimately show ?thesis
    by (simp add: editorSave_def rerender_def documents_flags)
qed

lemma saveAll_pending:
  assumes "document s = Some d"
    and "\<forall>call \<in> set calls. Some (snd call) \<noteq> doc_content d"
    and "withinQuietWindow t0 calls"
    and "pendingSave s = Some (t0 + debounceDelay, c0)"
    and "isContentDirty s"
  shows "saveAll fetchOk calls s =
         s\<lparr>pendingSave := Some (fst (last ((t0, c0) # calls)) + debounceDelay,
                                snd (last ((t0, c0) # calls)))\<rparr>"
  using assms
proof (induction calls arbitrary: s t0 c0)
  case Nil
  then show ?case by simp
next
  case (Cons call calls)
  obtain t c where call: "call = (t, c)" by (cases call)
  let ?s' = "s\<lparr>isContentDirty := True, pendingSave := Some (t + debounceDelay, c)\<rparr>"
  have w: "t0 \<le> t" "t < t0 + debounceDelay" "withinQuietWindow t calls"
    using Cons.prems(3) call by simp_all
  have ne: "Some c \<noteq> doc_content d"
    using Cons.prems(2) call by simp
  have step: "editorSave fetchOk t c True s = ?s'"
    using Cons.prems(1) ne
  proof (rule editorSave_debounced)
    show "pendingSave s = None \<or>
        (\<exists>c0 deadline. pendingSave s = Some (deadline, c0) \<and> t < deadline)"
      using Cons.prems(4) w(2) by simp
  qed
  have "saveAll fetchOk calls ?s' =
        ?s'\<lparr>pendingSave := Some (fst (last ((t, c) # calls)) + debounceDelay,
                                 snd (last ((t, c) # calls)))\<rparr>"
  proof (rule Cons.IH)
    show "document ?s' = Some d" using Cons.prems(1) by simp
    show "\<forall>call \<in> set calls. Some (snd call) \<noteq> doc_content d"
      using Cons.prems(2) by simp
    show "withinQuietWindow t calls" by (rule w(3))
    show "pendingSave ?s' = Some (t + debounceDelay, c)" by simp
    show "isContentDirty ?s'" by simp
  qed
  moreover have "s\<lparr>isContentDirty := True\<rparr> = s"
    using Cons.prems(5) by (cases s) simp
  ultimately show ?case
    using step call by (cases "calls = []") simp_all
qed

lemma posts_rerender: "posts (rerender old new) = posts new"
  by (simp add: rerender_def documentsEffect_def split: option.splits)

text \<open>
  C3, as the code has it. Let a snapshot be loaded and no save be pending. For \<open>N \<ge> 1\<close>
  calls \<open>saveContent(content, true)\<close>, each with a content different from the loaded
  snapshot's and each less than 2000 ms after the one before, exactly one persistence
  attempt runs, 2000 ms after the last call and with the content of the last call; it
  issues exactly one \<open>POST\<close>, with that content, when the cached latest snapshot has
  non-empty content different from it. With \<open>debounce = false\<close> and such a content the
  persistence attempt runs within the call.
\<close>

theorem debounced_saves_coalesce:
  assumes "document s = Some d" and "pendingSave s = None"
    and "\<forall>call \<in> set ((t1, c1) # calls). Some (snd call) \<noteq> doc_content d"
    and "withinQuietWindow t1 calls"
    and "last ((t1, c1) # calls) = (tN, cN)"
    and "tN + debounceDelay \<le> T"
  shows "runTimers fetchOk T (saveAll fetchOk ((t1, c1) # calls) s) =
           rerender (s\<lparr>isContentDirty := True\<rparr>)
             (handleContentChange fetchOk (tN + debounceDelay) cN (s\<lparr>isContentDirty := True\<rparr>)) \<and>
         (\<forall>ds. cache s (documentUrl (block s)) = Some ds \<and> ds \<noteq> [] \<and>
               \<not> falsy (doc_content (last ds)) \<and> doc_content (last ds) \<noteq> Some cN \<longrightarrow>
            posts (runTimers fetchOk T (saveAll fetchOk ((t1, c1) # calls) s)) =
              posts s @ [(documentUrl (block s), title (block s), cN)]) \<and>
         saveContent fetchOk t1 c1 False s =
           handleContentChange fetchOk t1 c1 (s\<lparr>isContentDirty := True\<rparr>)"
proof -
  let ?s1 = "s\<lparr>isContentDirty := True, pendingSave := Some (t1 + debounceDelay, c1)\<rparr>"
  have ne: "Some c1 \<noteq> doc_content d" using assms(3) by simp
  have first: "editorSave fetchOk t1 c1 True s = ?s1"
    using assms(1) ne
  proof (rule editorSave_debounced)
    show "pendingSave s = None \<or>
        (\<exists>c0 deadline. pendingSave s = Some (deadline, c0) \<and> t1 < deadline)"
      using assms(2) by simp
  qed
  have "saveAll fetchOk calls ?s1 =
        ?s1\<lparr>pendingSave := Some (fst (last ((t1, c1) # calls)) + debounceDelay,
                                 snd (last ((t1, c1) # calls)))\<rparr>"
  proof (rule saveAll_pending)
    show "document ?s1 = Some d" using assms(1) by simp
    show "\<forall>call \<in> set calls. Some (snd call) \<noteq> doc_content d"
      using assms(3) by simp
    show "withinQuietWindow t1 calls" by (rule assms(4))
    show "pendingSave ?s1 = Some (t1 + debounceDelay, c1)" by simp
    show "isContentDirty ?s1" by simp
  qed
  then have all: "saveAll fetchOk ((t1, c1) # calls) s =
        s\<lparr>isContentDirty := True, pendingSave := Some (tN + debounceDelay, cN)\<rparr>"
    using first assms(5) by simp
  have clear: "s\<lparr>isContentDirty := True, pendingSave := None\<rparr> = s\<lparr>isContentDirty := True\<rparr>"
    using assms(2) by (cases s) simp
  have run: "runTimers fetchOk T (saveAll fetchOk ((t1, c1) # calls) s) =
           rerender (s\<lparr>isContentDirty := True\<rparr>)
             (handleContentChange fetchOk (tN + debounceDelay) cN (s\<lparr>isContentDirty := True\<rparr>))"
    using assms(6) by (simp only: all) (simp add: runTimers_def clear Let_def)
  have one: "posts (runTimers fetchOk T (saveAll fetchOk ((t1, c1) # calls) s)) =
              posts s @ [(documentUrl (block s), title (block s), cN)]"
    if c: "cache s (documentUrl (block s)) = Some ds" and n: "ds \<noteq> []"
      and f: "\<not> falsy (doc_content (last ds))" and q: "doc_content (last ds) \<noteq> Some cN"
    for ds
  proof -
    let ?d = "s\<lparr>isContentDirty := True\<rparr>"
    have "cache ?d (documentUrl (block ?d)) = Some ds"
      using c by simp
    then have "posts (handleContentChange fetchOk (tN + debounceDelay) cN ?d) =
               posts ?d @ [(documentUrl (block ?d), title (block ?d), cN)]"
      using n f q by (simp add: handleContentChange_changed)
    then show ?thesis
      by (simp only: run posts_rerender) simp
  qed
  have now: "saveContent fetchOk t1 c1 False s =
           handleContentChange fetchOk t1 c1 (s\<lparr>isContentDirty := True\<rparr>)"
    using assms(1) ne by (simp add: saveContent_def)
  show ?thesis
    using run one now by blast
qed




theorem debounced_saves_coalesce_witness:
  "posts (runTimers True 3000
     (saveAll True [(0, ''ab''), (1000, ''abc'')] (panel [doc ''a''] 0 Edit False ''a''))) =
     [(''/api/document?id=doc1'', ''Notes'', ''abc'')] \<and>
   posts (saveContent True 0 ''ab'' False (panel [doc ''a''] 0 Edit False ''a'')) =
     [(''/api/document?id=doc1'', ''Notes'', ''ab'')]"
  using debounced_saves_coalesce
    [of "panel [doc ''a''] 0 Edit False ''a''" "doc ''a''" 0 "''ab''" "[(1000, ''abc'')]"
        1000 "''abc''" 3000 True]
  by (simp add: document_panel debounceDelay_def)
    (simp add: posts_rerender panel_def idle_block_def doc_def documentUrl_def
      handleContentChange_def js_at_last_def js_index_def falsy_def Let_def)

text \<open>
  C3 as stated fails. The loaded snapshot has content \<open>a\<close>; the editor reports \<open>ab\<close>
  at time 0 and \<open>a\<close> again at time 1000. The second call is ignored by \<open>saveContent\<close>,
  and the one write carries \<open>ab\<close>, the content of the first call. A single call with the
  content \<open>a\<close> leads to no write at all.
\<close>

theorem debounced_saves_coalesce_counterexample:
  "withinQuietWindow 0 [(1000, ''a'')] \<and>
   posts (runTimers True 3000
     (saveAll True [(0, ''ab''), (1000, ''a'')] (panel [doc ''a''] 0 Edit False ''a''))) =
     [(''/api/document?id=doc1'', ''Notes'', ''ab'')] \<and>
   posts (runTimers True 3000
     (saveAll True [(0, ''a'')] (panel [doc ''a''] 0 Edit False ''a''))) = []"
  by (simp add: debounceDelay_def panel_def idle_block_def doc_def documentUrl_def
      editorSave_def runTimers_def saveContent_def debouncedHandleContentChange_def
      handleContentChange_def rerender_def documents_def documentsKey_def documentsEffect_def
      js_at_last_def js_index_def falsy_def nullish_def Let_def)

section \<open>Uploads and sending\<close>

lemma successes_complete:
  "map the (filter (\<lambda>attachment. attachment \<noteq> None)
       (map fst (map (\<lambda>file. uploadFile (snd file)) files))) =
   concat (map (\<lambda>file.
      case snd file of
        Response True (Some data) \<Rightarrow>
          [\<lparr>url = json_url data, name = json_pathname data,
            contentType = json_contentType data\<rparr>]
      | _ \<Rightarrow> []) files)"
  by (induction files)
    (auto simp: uploadFile_def split: upload_response.splits option.splits bool.splits)

text \<open>
  C7. When a batch of uploads completes, the committed attachment list has gained
  exactly the attachments of the uploads that succeeded (a response with \<open>ok\<close> set and a
  readable body), one each and nothing for a failed upload, whatever its siblings did,
  and the pending upload queue is empty.
\<close>

theorem handleFileChange_partial_failure:
  "attachments (handleFileChange_complete files s) =
     attachments s @
     concat (map (\<lambda>file.
        case snd file of
          Response True (Some data) \<Rightarrow>
            [\<lparr>url = json_url data, name = json_pathname data,
              contentType = json_contentType data\<rparr>]
        | _ \<Rightarrow> []) files) \<and>
   uploadQueue (handleFileChange_complete files s) = [] \<and>
   attachments (handleFileChange files s) = attachments (handleFileChange_complete files s) \<and>
   uploadQueue (handleFileChange files s) = []"
proof -
  have c: "attachments (handleFileChange_complete files s) =
     attachments s @
     map the (filter (\<lambda>attachment. attachment \<noteq> None)
       (map fst (map (\<lambda>file. uploadFile (snd file)) files)))"
    for s
    by (simp only: handleFileChange_complete_def Let_def) simp
  have q: "uploadQueue (handleFileChange_complete files s) = []" for s
    by (simp add: handleFileChange_complete_def Let_def)
  have b: "attachments (handleFileChange_begin files s) = attachments s"
    by (simp add: handleFileChange_begin_def)
  show ?thesis
    by (simp only: handleFileChange_def c q b successes_complete)
qed

theorem handleFileChange_partial_failure_witness:
  "attachments (handleFileChange [(''a.png'', upload_refused), (''b.png'', upload_ok ''b.png'')]
      (typing ''hi'' [])) =
     [\<lparr>url = Some ''https://blob/b.png'', name = Some ''b.png'',
       contentType = Some ''image/png''\<rparr>] \<and>
   uploadQueue (handleFileChange [(''a.png'', upload_refused), (''b.png'', upload_ok ''b.png'')]
      (typing ''hi'' [])) = [] \<and>
   uploadQueue (handleFileChange_begin
      [(''a.png'', upload_refused), (''b.png'', upload_ok ''b.png'')] (typing ''hi'' [])) =
     [''a.png'', ''b.png'']"
  using handleFileChange_partial_failure
    [of "[(''a.png'', upload_refused), (''b.png'', upload_ok ''b.png'')]" "typing ''hi'' []"]
  by (simp add: upload_ok_def upload_refused_def typing_def handleFileChange_begin_def
      handleFileChange_complete_def uploadFile_def)

text \<open>
  C10. A submission while uploads are pending: with one upload in the queue and the
  input \<open>hi\<close> the send button is disabled and a click on it submits nothing, but the
  Enter key in the text area calls \<open>submitForm\<close>, which submits the message while the
  upload is still pending.
\<close>

theorem enter_submits_while_upload_pending:
  "sendDisabled (typing ''hi'' [''a.png'']) \<and>
   submissions (clickSend (typing ''hi'' [''a.png''])) = [] \<and>
   submissions (onKeyDown ''Enter'' False (typing ''hi'' [''a.png''])) = [(''hi'', [])] \<and>
   uploadQueue (onKeyDown ''Enter'' False (typing ''hi'' [''a.png''])) = [''a.png'']"
  by (simp add: typing_def sendDisabled_def clickSend_def onKeyDown_def submitForm_def)

end
